theory Spec2Isabelle
  imports Main
begin

section \<open>Python exceptions as values\<close>

text \<open>
  The three scripts raise no exception of their own; the ones that matter are raised by
  the Python operations they apply: indexing an empty list, selecting a missing column,
  and reading an attribute that the value does not have.
\<close>

datatype py_error = IndexError | KeyError | AttributeError

section \<open>Crawler and extractor (Decisions.py)\<close>

subsection \<open>The cursor file\<close>

text \<open>
  \<^verbatim>\<open>json.load\<close> and \<^verbatim>\<open>json.dump\<close> belong to the standard library. The file is
  modelled by what \<^verbatim>\<open>json.load\<close> makes of it: no file, text that is not JSON, or a
  JSON document. An object keeps its members in document order; the dictionary built
  from it keeps the last value of a repeated key.

  A write has three outcomes. \<^verbatim>\<open>open(LAST_VISITED_FILE, 'w')\<close> can raise: the file
  is left as it was. The open can succeed, which empties the file, and the write raise
  after it, in \<^verbatim>\<open>json.dump\<close> or when the file is closed: the file then holds the
  part of the text that reached it, which is not JSON unless it is the whole text. Or
  the write raises nothing and the file holds the whole text. \<open>on_write\<close> says which
  outcome the next write has; all of it is inside the \<^verbatim>\<open>try\<close> of
  \<open>save_last_visited\<close>, whose handler logs the IOError and returns.
\<close>

datatype json =
    JNull
  | JBool bool
  | JNum string
  | JStr string
  | JArr "json list"
  | JObj "(string \<times> json) list"

datatype file_state = Absent | NotJson | Json json

datatype write_outcome = OpenFails | DumpFails bool | Written

record cursor_file =
  on_write :: write_outcome
  content :: file_state

definition dict_get :: "(string \<times> json) list \<Rightarrow> string \<Rightarrow> json" where
  "dict_get kvs k = (case map_of (rev kvs) k of None \<Rightarrow> JNull | Some v \<Rightarrow> v)"

fun load_last_visited :: "file_state \<Rightarrow> py_error + json" where
  "load_last_visited Absent = Inr JNull"
| "load_last_visited NotJson = Inr JNull"
| "load_last_visited (Json (JObj kvs)) = Inr (dict_get kvs ''last_visited'')"
| "load_last_visited (Json _) = Inl AttributeError"

definition get_last_visited :: "cursor_file \<Rightarrow> py_error + json" where
  "get_last_visited f = load_last_visited (content f)"

definition save_last_visited :: "string \<Rightarrow> cursor_file \<Rightarrow> cursor_file" where
  "save_last_visited href f =
     (case on_write f of
        OpenFails \<Rightarrow> f
      | DumpFails whole \<Rightarrow>
          f\<lparr>content := (if whole then Json (JObj [(''last_visited'', JStr href)]) else NotJson)\<rparr>
      | Written \<Rightarrow> f\<lparr>content := Json (JObj [(''last_visited'', JStr href)])\<rparr>)"

subsection \<open>Decision links\<close>

text \<open>
  A listing row is the sequence of its anchors in document order;
  \<^verbatim>\<open>row.find('a', href=True)\<close> is the first anchor that has an \<^verbatim>\<open>href\<close>.
\<close>

record anchor =
  href :: "string option"
  title :: string

fun first_href :: "anchor list \<Rightarrow> string option" where
  "first_href [] = None"
| "first_href (a # as) = (case href a of Some h \<Rightarrow> Some h | None \<Rightarrow> first_href as)"

definition startswith :: "string \<Rightarrow> string \<Rightarrow> bool" where
  "startswith s p = (take (length p) s = p)"

definition full_href :: "string \<Rightarrow> string" where
  "full_href h = (if \<not> startswith h ''http'' then ''https://ised-isde.canada.ca'' @ h else h)"

fun links_loop :: "json \<Rightarrow> string list \<Rightarrow> anchor list list \<Rightarrow> string list" where
  "links_loop last_visited links [] = links"
| "links_loop last_visited links (r # decision_rows) =
     (case first_href r of
        None \<Rightarrow> links_loop last_visited links decision_rows
      | Some h \<Rightarrow>
          if JStr (full_href h) = last_visited then links
          else links_loop last_visited (links @ [full_href h]) decision_rows)"

definition extract_decision_links :: "anchor list list \<Rightarrow> json \<Rightarrow> string list" where
  "extract_decision_links decision_rows last_visited = rev (links_loop last_visited [] decision_rows)"

text \<open>The links the rows carry, as absolute URLs, in source order.\<close>

definition row_links :: "anchor list list \<Rightarrow> string list" where
  "row_links decision_rows = map full_href (List.map_filter first_href decision_rows)"

subsection \<open>Frequency ranges\<close>

text \<open>
  The pattern of \<open>format_frequency_range\<close> is
  \<^verbatim>\<open>(\d{3,4})- ?(\d{3,4})|(\d{3,4})/ ?(\d{3,4})|(\d{3,4})-(\d{3,4})(\d{3,4})-(\d{3,4})\<close>.
  Each piece of it is a function from the text to the list of ways the piece can match
  at its start, in the order a backtracking matcher tries them (greedy first); a way is
  the text that is left, with the captured group where the piece is a group. The first
  way of the whole pattern is the match \<^verbatim>\<open>re\<close> reports. Characters are bytes
  here, so \<^verbatim>\<open>\d\<close> is one of the ten ASCII digits.
\<close>

definition is_digit :: "char \<Rightarrow> bool" where
  "is_digit c = (c \<in> set ''0123456789'')"

definition digits34 :: "string \<Rightarrow> (string \<times> string) list" where
  "digits34 s =
     (if 4 \<le> length s \<and> list_all is_digit (take 4 s) then [(take 4 s, drop 4 s)] else []) @
     (if 3 \<le> length s \<and> list_all is_digit (take 3 s) then [(take 3 s, drop 3 s)] else [])"

definition lit :: "char \<Rightarrow> string \<Rightarrow> string list" where
  "lit c s = (case s of [] \<Rightarrow> [] | x # r \<Rightarrow> if x = c then [r] else [])"

definition opt_space :: "string \<Rightarrow> string list" where
  "opt_space s = lit CHR '' '' s @ [s]"

definition alt1 :: "string \<Rightarrow> (string list \<times> string) list" where
  "alt1 s = [([a, b, [], [], [], [], [], []], r3).
               (a, r0) \<leftarrow> digits34 s, r1 \<leftarrow> lit CHR ''-'' r0, r2 \<leftarrow> opt_space r1,
               (b, r3) \<leftarrow> digits34 r2]"

definition alt2 :: "string \<Rightarrow> (string list \<times> string) list" where
  "alt2 s = [([[], [], a, b, [], [], [], []], r3).
               (a, r0) \<leftarrow> digits34 s, r1 \<leftarrow> lit CHR ''/'' r0, r2 \<leftarrow> opt_space r1,
               (b, r3) \<leftarrow> digits34 r2]"

definition alt3 :: "string \<Rightarrow> (string list \<times> string) list" where
  "alt3 s = [([[], [], [], [], a, b, c, d], r5).
               (a, r0) \<leftarrow> digits34 s, r1 \<leftarrow> lit CHR ''-'' r0, (b, r2) \<leftarrow> digits34 r1,
               (c, r3) \<leftarrow> digits34 r2, r4 \<leftarrow> lit CHR ''-'' r3, (d, r5) \<leftarrow> digits34 r4]"

definition pattern_ways :: "string \<Rightarrow> (string list \<times> string) list" where
  "pattern_ways s = alt1 s @ alt2 s @ alt3 s"

text \<open>The match at the start of the text: its eight groups and the number of characters it spans.\<close>

definition match_at :: "string \<Rightarrow> (string list \<times> nat) option" where
  "match_at s = (case pattern_ways s of [] \<Rightarrow> None | (g, r) # _ \<Rightarrow> Some (g, length s - length r))"

text \<open>
  \<^verbatim>\<open>re.findall\<close> scans left to right and reports the matches that do not overlap. The
  first argument counts the characters still covered by the last match.
\<close>

fun findall_scan :: "nat \<Rightarrow> string \<Rightarrow> string list list" where
  "findall_scan k [] = []"
| "findall_scan (Suc k) (c # s) = findall_scan k s"
| "findall_scan 0 (c # s) =
     (case match_at (c # s) of
        None \<Rightarrow> findall_scan 0 s
      | Some (g, n) \<Rightarrow> g # findall_scan (n - 1) s)"

definition findall :: "string \<Rightarrow> string list list" where
  "findall s = findall_scan 0 s"

fun join :: "string \<Rightarrow> string list \<Rightarrow> string" where
  "join sep [] = []"
| "join sep [x] = x"
| "join sep (x # y # ys) = x @ sep @ join sep (y # ys)"

definition format_match :: "string list \<Rightarrow> string list" where
  "format_match m =
     (let nums = filter (\<lambda>g. g \<noteq> []) m in
      if length nums = 2 then [nums ! 0 @ ''-'' @ nums ! 1]
      else if length nums = 4 then [nums ! 0 @ ''-'' @ nums ! 1 @ '' '' @ nums ! 2 @ ''-'' @ nums ! 3]
      else [])"

definition format_frequency_range :: "string \<Rightarrow> string" where
  "format_frequency_range freq_range = join '' '' (concat (map format_match (findall freq_range)))"

subsection \<open>Decision tables\<close>

text \<open>
  The decision page is modelled by what the traversal of the parsed document gives: the
  bordered table if there is one, its caption if there is one, and for each table row
  the texts of its header cells and of its data cells, as \<^verbatim>\<open>get_text(strip=True)\<close>
  returns them. A record is a Python dictionary from header text to cell text.
\<close>

record html_row =
  ths :: "string list"
  tds :: "string list"

record html_table =
  caption :: "string option"
  trs :: "html_row list"

datatype soup = Soup "html_table option"

definition nbsp_to_space :: "string \<Rightarrow> string" where
  "nbsp_to_space s = map (\<lambda>c. if c = CHR 0xA0 then CHR '' '' else c) s"

definition row_dict :: "string list \<Rightarrow> string list \<Rightarrow> py_error + (string \<rightharpoonup> string)" where
  "row_dict headers cols =
     (if length headers < length cols then Inl IndexError
      else Inr (fold (\<lambda>(h, c) d. d(h \<mapsto> nbsp_to_space c)) (zip headers cols) Map.empty))"

definition format_field :: "string \<Rightarrow> (string \<rightharpoonup> string) \<Rightarrow> (string \<rightharpoonup> string)" where
  "format_field k d = (case d k of None \<Rightarrow> d | Some v \<Rightarrow> d(k \<mapsto> format_frequency_range v))"

definition tier_fields :: "string list" where
  "tier_fields =
     [''Tier number and geographic area of the licence'',
      ''Tier number and geographic area of the subordinate licence'',
      ''Tier number and geographic area of the primary licence'']"

text \<open>\<^verbatim>\<open>s.split(' ', 1)\<close>: at most one split, at the first space.\<close>

definition split_space1 :: "string \<Rightarrow> string list" where
  "split_space1 s =
     (if CHR '' '' \<in> set s
      then [takeWhile (\<lambda>c. c \<noteq> CHR '' '') s, tl (dropWhile (\<lambda>c. c \<noteq> CHR '' '') s)]
      else [s])"

definition split_tier_field :: "string \<Rightarrow> (string \<rightharpoonup> string) \<Rightarrow> (string \<rightharpoonup> string)" where
  "split_tier_field field d =
     (case d field of
        None \<Rightarrow> d
      | Some tier_geo \<Rightarrow>
          (let parts = split_space1 tier_geo;
               d' = (if length parts = 2
                     then d(''Tier number'' \<mapsto> parts ! 0,
                            ''Geographic area of the licence'' \<mapsto> parts ! 1)
                     else d)
           in d'(field := None)))"

definition format_fields :: "(string \<rightharpoonup> string) \<Rightarrow> (string \<rightharpoonup> string)" where
  "format_fields d =
     format_field ''Frequency range (MHz) of the subordinate licence''
       (format_field ''Frequency range (MHz) of the primary licence''
         (format_field ''Frequency range (MHz)'' d))"

definition process_record :: "string \<Rightarrow> (string \<rightharpoonup> string) \<Rightarrow> (string \<rightharpoonup> string)" where
  "process_record table_title d =
     (fold split_tier_field tier_fields (format_fields d))(''Table Title'' \<mapsto> table_title)"

fun rows_loop :: "string \<Rightarrow> string list \<Rightarrow> html_row list \<Rightarrow> py_error + (string \<rightharpoonup> string) list" where
  "rows_loop table_title headers [] = Inr []"
| "rows_loop table_title headers (r # rs) =
     (case row_dict headers (tds r) of
        Inl e \<Rightarrow> Inl e
      | Inr d \<Rightarrow>
          (case rows_loop table_title headers rs of
             Inl e \<Rightarrow> Inl e
           | Inr ds \<Rightarrow> Inr (process_record table_title d # ds)))"

fun extract_data :: "soup option \<Rightarrow> py_error + (string \<rightharpoonup> string) list" where
  "extract_data None = Inr []"
| "extract_data (Some (Soup None)) = Inr []"
| "extract_data (Some (Soup (Some t))) =
     (case trs t of
        [] \<Rightarrow> Inr []
      | hr # rs \<Rightarrow>
          rows_loop (case caption t of None \<Rightarrow> ''Unknown Table Title'' | Some c \<Rightarrow> c)
            (map nbsp_to_space (ths hr)) rs)"

section \<open>Tier loader (database.py)\<close>

subsection \<open>Layers\<close>

text \<open>
  A layer (a GeoDataFrame) is its column names and its rows, each row holding one cell
  per column. A cell is a missing value, an attribute value, a row index or a geometry.
  Three operations of the libraries are parameters of the model: \<open>isect\<close>, whether two
  geometries intersect; \<open>to_str\<close>, Python's \<^verbatim>\<open>str\<close> of a cell; and \<open>wkt\<close>, the
  well-known text of a geometry.
\<close>

datatype 'g cell = Null | Val string | Idx nat | Geo 'g

record 'g gdf =
  columns :: "string list"
  rows :: "'g cell list list"

definition cell_of :: "string list \<Rightarrow> 'g cell list \<Rightarrow> string \<Rightarrow> 'g cell" where
  "cell_of cols r c = (case map_of (zip cols r) c of None \<Rightarrow> Null | Some x \<Rightarrow> x)"

definition geom_of :: "string list \<Rightarrow> 'g cell list \<Rightarrow> 'g option" where
  "geom_of cols r = (case cell_of cols r ''geometry'' of Geo g \<Rightarrow> Some g | _ \<Rightarrow> None)"

text \<open>\<^verbatim>\<open>gdf[[c1, c2]]\<close>: the named columns, or KeyError when one is missing.\<close>

definition select_cols :: "string list \<Rightarrow> 'g gdf \<Rightarrow> py_error + 'g gdf" where
  "select_cols cs g =
     (if set cs \<subseteq> set (columns g)
      then Inr \<lparr>columns = cs, rows = map (\<lambda>r. map (cell_of (columns g) r) cs) (rows g)\<rparr>
      else Inl KeyError)"

text \<open>
  \<^verbatim>\<open>gpd.sjoin(left, right, how="left", predicate="intersects")\<close>: every row of the left
  layer is kept. It is repeated once for each row of the right layer whose geometry
  intersects its own, followed by that row's index and attribute cells, and it is
  followed by missing values when there is none. Attribute columns that both layers
  have get the suffixes \<^verbatim>\<open>_left\<close> and \<^verbatim>\<open>_right\<close>.
\<close>

definition hits :: "('g \<Rightarrow> 'g \<Rightarrow> bool) \<Rightarrow> 'g gdf \<Rightarrow> 'g option \<Rightarrow> nat list" where
  "hits isect right lg =
     (case lg of
        None \<Rightarrow> []
      | Some a \<Rightarrow>
          filter (\<lambda>j. case geom_of (columns right) (rows right ! j) of
                        None \<Rightarrow> False
                      | Some b \<Rightarrow> isect a b)
            [0 ..< length (rows right)])"

definition attr_cols :: "'g gdf \<Rightarrow> string list" where
  "attr_cols g = filter (\<lambda>c. c \<noteq> ''geometry'') (columns g)"

definition sjoin_left :: "('g \<Rightarrow> 'g \<Rightarrow> bool) \<Rightarrow> 'g gdf \<Rightarrow> 'g gdf \<Rightarrow> 'g gdf" where
  "sjoin_left isect left right =
     \<lparr>columns =
        map (\<lambda>c. if c \<in> set (attr_cols left) \<and> c \<in> set (attr_cols right) then c @ ''_left'' else c)
          (columns left)
        @ [''index_right'']
        @ map (\<lambda>c. if c \<in> set (attr_cols left) then c @ ''_right'' else c) (attr_cols right),
      rows =
        concat (map (\<lambda>l.
          case hits isect right (geom_of (columns left) l) of
            [] \<Rightarrow> [l @ Null # map (\<lambda>c. Null) (attr_cols right)]
          | j # js \<Rightarrow>
              map (\<lambda>k. l @ Idx k # map (cell_of (columns right) (rows right ! k)) (attr_cols right))
                (j # js))
          (rows left))\<rparr>"

definition rename_cols :: "(string \<times> string) list \<Rightarrow> 'g gdf \<Rightarrow> 'g gdf" where
  "rename_cols m g = g\<lparr>columns := map (\<lambda>c. case map_of m c of None \<Rightarrow> c | Some n \<Rightarrow> n) (columns g)\<rparr>"

subsection \<open>Decimal numerals in names\<close>

definition digit_char :: "nat \<Rightarrow> char" where
  "digit_char d = ''0123456789'' ! d"

function show_nat :: "nat \<Rightarrow> string" where
  "show_nat n = (if n < 10 then [digit_char n] else show_nat (n div 10) @ [digit_char (n mod 10)])"
  by pat_completeness auto
termination
  by (relation "measure id") auto

declare show_nat.simps [simp del]

subsection \<open>Loading and joining the tiers\<close>

text \<open>
  The archive is modelled by what the loop reads from it: for a tier number, the layer
  of the first file that matches the tier's pattern, if a file matches.
\<close>

definition area_col :: string where
  "area_col = ''Service_Area_Zone_de_service''"

definition join_tier :: "('g \<Rightarrow> 'g \<Rightarrow> bool) \<Rightarrow> nat \<Rightarrow> 'g gdf \<Rightarrow> 'g gdf \<Rightarrow> py_error + 'g gdf" where
  "join_tier isect tier prev tier_gdf =
     (case select_cols [area_col, ''geometry''] prev of
        Inl e \<Rightarrow> Inl e
      | Inr right \<Rightarrow>
          Inr (rename_cols
                 [(area_col @ ''_left'', area_col),
                  (area_col @ ''_right'', ''Tier'' @ show_nat (tier - 1) @ ''_'' @ area_col)]
                 (sjoin_left isect tier_gdf right)))"

fun tiers_loop ::
  "('g \<Rightarrow> 'g \<Rightarrow> bool) \<Rightarrow> (nat \<Rightarrow> 'g gdf option) \<Rightarrow> 'g gdf list \<Rightarrow> nat list \<Rightarrow> py_error + 'g gdf list" where
  "tiers_loop isect archive tier_gdfs [] = Inr tier_gdfs"
| "tiers_loop isect archive tier_gdfs (tier # tiers) =
     (case archive tier of
        None \<Rightarrow> tiers_loop isect archive tier_gdfs tiers
      | Some tier_gdf \<Rightarrow>
          if 1 < tier then
            (if tier_gdfs = [] then Inl IndexError
             else
               (case join_tier isect tier (last tier_gdfs) tier_gdf of
                  Inl e \<Rightarrow> Inl e
                | Inr joined \<Rightarrow> tiers_loop isect archive (tier_gdfs @ [joined]) tiers))
          else tiers_loop isect archive (tier_gdfs @ [tier_gdf]) tiers)"

definition load_and_join_tiers ::
  "('g \<Rightarrow> 'g \<Rightarrow> bool) \<Rightarrow> (nat \<Rightarrow> 'g gdf option) \<Rightarrow> nat \<Rightarrow> py_error + 'g gdf list" where
  "load_and_join_tiers isect archive num_tiers = tiers_loop isect archive [] [1 ..< num_tiers + 1]"

subsection \<open>The store\<close>

text \<open>
  The store maps a table name to the table's columns (name and declared type) and its
  rows in insertion order. \<^verbatim>\<open>CREATE TABLE\<close> adds an empty table and
  \<^verbatim>\<open>INSERT\<close> appends rows.
\<close>

record db_table =
  schema :: "(string \<times> string) list"
  contents :: "string list list"

definition table_exists :: "(string \<rightharpoonup> db_table) \<Rightarrow> string \<Rightarrow> bool" where
  "table_exists conn table_name = (conn table_name \<noteq> None)"

definition create_table :: "string \<Rightarrow> (string \<times> string) list \<Rightarrow> (string \<rightharpoonup> db_table) \<Rightarrow> (string \<rightharpoonup> db_table)" where
  "create_table table_name sch conn = conn(table_name \<mapsto> \<lparr>schema = sch, contents = []\<rparr>)"

definition insert_rows :: "string \<Rightarrow> string list list \<Rightarrow> (string \<rightharpoonup> db_table) \<Rightarrow> (string \<rightharpoonup> db_table)" where
  "insert_rows table_name rs conn =
     (case conn table_name of
        None \<Rightarrow> conn
      | Some t \<Rightarrow> conn(table_name \<mapsto> t\<lparr>contents := contents t @ rs\<rparr>))"

definition table_rows :: "(string \<rightharpoonup> db_table) \<Rightarrow> string \<Rightarrow> string list list" where
  "table_rows conn table_name = (case conn table_name of None \<Rightarrow> [] | Some t \<Rightarrow> contents t)"

definition tier_table :: "nat \<Rightarrow> string" where
  "tier_table tier = ''Tier'' @ show_nat tier @ ''_Areas''"

definition schema_of :: "'g gdf \<Rightarrow> (string \<times> string) list" where
  "schema_of g = map (\<lambda>col. (col, ''VARCHAR'')) (attr_cols g) @ [(''Geometry'', ''STRING'')]"

definition row_value ::
  "('g cell \<Rightarrow> string) \<Rightarrow> ('g \<Rightarrow> string) \<Rightarrow> string list \<Rightarrow> 'g cell list \<Rightarrow> string \<Rightarrow> py_error + string" where
  "row_value to_str wkt cols r col =
     (if col \<noteq> ''geometry'' then Inr (to_str (cell_of cols r col))
      else (case cell_of cols r ''geometry'' of Geo g \<Rightarrow> Inr (wkt g) | _ \<Rightarrow> Inl AttributeError))"

fun collect :: "('a \<Rightarrow> py_error + 'b) \<Rightarrow> 'a list \<Rightarrow> py_error + 'b list" where
  "collect f [] = Inr []"
| "collect f (x # xs) =
     (case f x of
        Inl e \<Rightarrow> Inl e
      | Inr y \<Rightarrow> (case collect f xs of Inl e \<Rightarrow> Inl e | Inr ys \<Rightarrow> Inr (y # ys)))"

definition rows_to_insert ::
  "('g cell \<Rightarrow> string) \<Rightarrow> ('g \<Rightarrow> string) \<Rightarrow> 'g gdf \<Rightarrow> py_error + string list list" where
  "rows_to_insert to_str wkt g =
     collect (\<lambda>r. collect (row_value to_str wkt (columns g) r) (columns g)) (rows g)"

fun populate_loop ::
  "('g cell \<Rightarrow> string) \<Rightarrow> ('g \<Rightarrow> string) \<Rightarrow> (string \<rightharpoonup> db_table) \<Rightarrow> nat \<Rightarrow> 'g gdf list
   \<Rightarrow> py_error + (string \<rightharpoonup> db_table)" where
  "populate_loop to_str wkt conn tier [] = Inr conn"
| "populate_loop to_str wkt conn tier (g # tier_gdfs) =
     (let conn1 = (if \<not> table_exists conn (tier_table tier)
                   then create_table (tier_table tier) (schema_of g) conn
                   else conn)
      in case rows_to_insert to_str wkt g of
           Inl e \<Rightarrow> Inl e
         | Inr rs \<Rightarrow> populate_loop to_str wkt (insert_rows (tier_table tier) rs conn1) (Suc tier) tier_gdfs)"

definition create_and_populate_tables ::
  "('g cell \<Rightarrow> string) \<Rightarrow> ('g \<Rightarrow> string) \<Rightarrow> (string \<rightharpoonup> db_table) \<Rightarrow> 'g gdf list
   \<Rightarrow> py_error + (string \<rightharpoonup> db_table)" where
  "create_and_populate_tables to_str wkt conn tier_gdfs = populate_loop to_str wkt conn 1 tier_gdfs"


section \<open>Exporter (testing.py)\<close>

text \<open>
  \<^verbatim>\<open>pd.read_sql\<close> gives the table as a data frame of text cells, \<open>None\<close> for a
  missing value. \<open>wkt_loads\<close> is \<^verbatim>\<open>shapely.wkt.loads\<close>, a parameter of the model:
  \<open>None\<close> stands for the ShapelyError it raises on text it cannot parse.
\<close>

record dataframe =
  df_columns :: "string list"
  df_rows :: "string option list list"

definition as_cell :: "string option \<Rightarrow> 'g cell" where
  "as_cell x = (case x of None \<Rightarrow> Null | Some s \<Rightarrow> Val s)"

definition convert_geometry :: "(string \<Rightarrow> 'g option) \<Rightarrow> string option \<Rightarrow> 'g cell" where
  "convert_geometry wkt_loads x =
     (case x of
        None \<Rightarrow> Null
      | Some s \<Rightarrow>
          if s \<noteq> [] then (case wkt_loads s of None \<Rightarrow> Null | Some g \<Rightarrow> Geo g) else Null)"

fun convert_row :: "(string \<Rightarrow> 'g option) \<Rightarrow> string list \<Rightarrow> string option list \<Rightarrow> 'g cell list" where
  "convert_row wkt_loads (c # cs) (x # xs) =
     (if c = ''Geometry'' then convert_geometry wkt_loads x else as_cell x) # convert_row wkt_loads cs xs"
| "convert_row wkt_loads cs xs = map as_cell xs"

definition read_table_as_gdf :: "(string \<Rightarrow> 'g option) \<Rightarrow> dataframe \<Rightarrow> 'g gdf" where
  "read_table_as_gdf wkt_loads df =
     (if ''Geometry'' \<in> set (df_columns df)
      then \<lparr>columns = df_columns df, rows = map (convert_row wkt_loads (df_columns df)) (df_rows df)\<rparr>
      else \<lparr>columns = df_columns df, rows = map (map as_cell) (df_rows df)\<rparr>)"

section \<open>Words for the properties, and example inputs\<close>

text \<open>A listing of five decisions, newest first, each row with one relative link.\<close>

definition listing5 :: "anchor list list" where
  "listing5 =
     [[\<lparr>href = Some ''/d/5'', title = ''Decision 5''\<rparr>],
      [\<lparr>href = Some ''/d/4'', title = ''Decision 4''\<rparr>],
      [\<lparr>href = Some ''/d/3'', title = ''Decision 3''\<rparr>],
      [\<lparr>href = Some ''/d/2'', title = ''Decision 2''\<rparr>],
      [\<lparr>href = Some ''/d/1'', title = ''Decision 1''\<rparr>]]"

text \<open>
  Words for the properties of the tier fields: the text before the first space of a
  value and the text after it; the combined fields that come after a field in the loop;
  whether a record has a field with a space in its value; and the combined field whose
  split survives the loop, the last one in loop order that has a space in its value.
\<close>

definition first_word :: "string \<Rightarrow> string" where
  "first_word v = takeWhile (\<lambda>c. c \<noteq> CHR '' '') v"

definition after_first_space :: "string \<Rightarrow> string" where
  "after_first_space v = tl (dropWhile (\<lambda>c. c \<noteq> CHR '' '') v)"

definition later_fields :: "string \<Rightarrow> string list" where
  "later_fields field = tl (dropWhile (\<lambda>g. g \<noteq> field) tier_fields)"

definition splittable :: "(string \<rightharpoonup> string) \<Rightarrow> string \<Rightarrow> bool" where
  "splittable d g = (case d g of None \<Rightarrow> False | Some w \<Rightarrow> CHR '' '' \<in> set w)"

definition chosen_field :: "(string \<rightharpoonup> string) \<Rightarrow> string option" where
  "chosen_field d = find (splittable d) (rev tier_fields)"

text \<open>The values of the named fields in each record of a result.\<close>

definition fields_of ::
  "string list \<Rightarrow> py_error + (string \<rightharpoonup> string) list \<Rightarrow> py_error + string option list list" where
  "fields_of ks res = (case res of Inl e \<Rightarrow> Inl e | Inr ds \<Rightarrow> Inr (map (\<lambda>d. map d ks) ds))"

text \<open>Two decision tables with one data row: a combined field with spaces, and one with none.\<close>

definition page_tier3 :: html_table where
  "page_tier3 =
     \<lparr>caption = Some ''Spectrum licence transfer'',
      trs = [\<lparr>ths = [''Licensee'', ''Tier number and geographic area of the licence''], tds = []\<rparr>,
             \<lparr>ths = [], tds = [''Acme Wireless'', ''Tier 3 Southern Ontario'']\<rparr>]\<rparr>"

definition page_no_space :: html_table where
  "page_no_space =
     \<lparr>caption = Some ''Spectrum licence transfer'',
      trs = [\<lparr>ths = [''Licensee'', ''Tier number and geographic area of the licence''], tds = []\<rparr>,
             \<lparr>ths = [], tds = [''Acme Wireless'', ''3-042'']\<rparr>]\<rparr>"

text \<open>
  Whether the geometries of two rows intersect; a row without a geometry intersects
  nothing.
\<close>

definition features_intersect ::
  "('g \<Rightarrow> 'g \<Rightarrow> bool) \<Rightarrow> string list \<Rightarrow> 'g cell list \<Rightarrow> string list \<Rightarrow> 'g cell list \<Rightarrow> bool" where
  "features_intersect isect lcols l rcols r =
     (case geom_of lcols l of
        None \<Rightarrow> False
      | Some a \<Rightarrow> (case geom_of rcols r of None \<Rightarrow> False | Some b \<Rightarrow> isect a b))"

text \<open>The name of the parent-area column of a joined tier.\<close>

definition parent_col :: "nat \<Rightarrow> string" where
  "parent_col tier = ''Tier'' @ show_nat (tier - 1) @ ''_'' @ area_col"

text \<open>
  Two small layers whose geometries are numbers, to be joined with equality as the
  intersection test, and an archive that holds a file for tier 2 only.
\<close>

definition tier1_layer :: "nat gdf" where
  "tier1_layer =
     \<lparr>columns = [''Service_Area_Zone_de_service'', ''geometry''],
      rows = [[Val ''1-01'', Geo 4]]\<rparr>"

definition tier2_layer :: "nat gdf" where
  "tier2_layer =
     \<lparr>columns = [''Service_Area_Zone_de_service'', ''geometry''],
      rows = [[Val ''2-01'', Geo 4], [Val ''2-02'', Geo 7]]\<rparr>"

definition archive_tier2_only :: "nat \<Rightarrow> nat gdf option" where
  "archive_tier2_only tier = (if tier = 2 then Some tier2_layer else None)"



text \<open>
  A \<^verbatim>\<open>str\<close> and a well-known text for layers whose geometries are numbers. The
  \<^verbatim>\<open>str\<close> is that of the cells of a joined layer in which some feature has no
  match: the row indices are then floats, \<^verbatim>\<open>0.0\<close> for the index 0, and a missing
  value is \<^verbatim>\<open>nan\<close>.
\<close>

definition cell_text :: "nat cell \<Rightarrow> string" where
  "cell_text c = (case c of Null \<Rightarrow> ''nan'' | Val s \<Rightarrow> s | Idx k \<Rightarrow> show_nat k @ ''.0'' | Geo g \<Rightarrow> ''POINT'')"

definition point_wkt :: "nat \<Rightarrow> string" where
  "point_wkt g = ''POINT ('' @ show_nat g @ '' 0)''"




text \<open>A table with a geometry cell that is not well-known text, and a parser of points.\<close>

definition areas_df :: dataframe where
  "areas_df =
     \<lparr>df_columns = [''Service_Area_Zone_de_service'', ''Geometry''],
      df_rows = [[Some ''1-01'', Some ''POINT (4 0)''], [Some ''1-02'', Some ''POLYGON ((''], [Some ''1-03'', None]]\<rparr>"

definition point_loads :: "string \<Rightarrow> nat option" where
  "point_loads s = (if s = ''POINT (4 0)'' then Some 4 else if s = ''POINT (7 0)'' then Some 7 else None)"

section \<open>Properties of the crawler\<close>

subsection \<open>Frequency ranges\<close>

text \<open>
  Wherever the third alternative of the pattern can match, the first one can: it needs
  the same two groups around the same hyphen. So the match that is reported always
  comes from the first or the second alternative and has two groups, for every text,
  and text in which the pattern matches nowhere gives the empty string.
\<close>

lemma opt_space_self: "r \<in> set (opt_space r)"
  by (simp add: opt_space_def)

lemma alt3_needs_alt1: "alt3 s \<noteq> [] \<Longrightarrow> alt1 s \<noteq> []"
proof -
  assume "alt3 s \<noteq> []"
  then obtain g r where "(g, r) \<in> set (alt3 s)"
    by (cases "alt3 s") auto
  then obtain a r0 r1 b r2 where "(a, r0) \<in> set (digits34 s)" "r1 \<in> set (lit CHR ''-'' r0)"
    "(b, r2) \<in> set (digits34 r1)"
    by (auto simp: alt3_def)
  then have "([a, b, [], [], [], [], [], []], r2) \<in> set (alt1 s)"
    using opt_space_self [of r1] by (force simp: alt1_def)
  then show ?thesis by auto
qed

lemma digits34_nonempty: "(a, r) \<in> set (digits34 s) \<Longrightarrow> a \<noteq> []"
  by (auto simp: digits34_def split: if_splits)

lemma alt1_two_groups: "(g, r) \<in> set (alt1 s) \<Longrightarrow> length (filter (\<lambda>x. x \<noteq> []) g) = 2"
  by (auto simp: alt1_def dest: digits34_nonempty)

lemma alt2_two_groups: "(g, r) \<in> set (alt2 s) \<Longrightarrow> length (filter (\<lambda>x. x \<noteq> []) g) = 2"
  by (auto simp: alt2_def dest: digits34_nonempty)

lemma match_at_two_groups:
  assumes "match_at s = Some (g, n)"
  shows "length (filter (\<lambda>x. x \<noteq> []) g) = 2"
proof -
  from assms obtain r ws where ws: "pattern_ways s = (g, r) # ws"
    by (auto simp: match_at_def split: list.splits)
  show ?thesis
  proof (cases "alt1 s")
    case Nil
    then have "alt3 s = []"
      using alt3_needs_alt1 by blast
    with Nil ws have "(g, r) \<in> set (alt2 s)"
      by (simp add: pattern_ways_def)
    then show ?thesis by (rule alt2_two_groups)
  next
    case (Cons w ws')
    with ws have "(g, r) \<in> set (alt1 s)"
      by (simp add: pattern_ways_def)
    then show ?thesis by (rule alt1_two_groups)
  qed
qed

lemma findall_scan_matches:
  "m \<in> set (findall_scan k s) \<Longrightarrow> \<exists>t n. match_at t = Some (m, n)"
  by (induction k s rule: findall_scan.induct) (auto split: option.splits)

lemma findall_two_groups: "m \<in> set (findall s) \<Longrightarrow> length (filter (\<lambda>x. x \<noteq> []) m) = 2"
  using findall_scan_matches match_at_two_groups unfolding findall_def by blast

lemma findall_scan_no_match:
  "(\<forall>n. match_at (drop n s) = None) \<Longrightarrow> findall_scan 0 s = []"
proof (induction s)
  case Nil
  then show ?case by simp
next
  case (Cons c s)
  have "match_at (drop n s) = None" for n
    using Cons.prems [rule_format, of "Suc n"] by simp
  moreover have "match_at (c # s) = None"
    using Cons.prems [rule_format, of 0] by simp
  ultimately show ?case
    using Cons.IH by simp
qed

lemma format_frequency_range_unrecognized:
  "(\<forall>n. match_at (drop n s) = None) \<Longrightarrow> format_frequency_range s = []"
  by (simp add: format_frequency_range_def findall_def findall_scan_no_match)

lemma format_frequency_range_hyphen: "format_frequency_range ''470-512'' = ''470-512''"
  by code_simp

lemma format_frequency_range_slash: "format_frequency_range ''470/ 512'' = ''470-512''"
  by code_simp

text \<open>
  Claim C1. \<open>format_frequency_range\<close> is said to turn two hyphen ranges written
  with no separator, \<^verbatim>\<open>470-512480-500\<close>, into \<^verbatim>\<open>470-512 480-500\<close>. The first
  alternative of the pattern matches wherever the third one does, and it is tried first:
  it takes \<^verbatim>\<open>470-5124\<close>, nothing after it matches, and the result is
  \<^verbatim>\<open>470-5124\<close>. The branch for four groups is never reached.
\<close>

theorem format_frequency_range_concatenated:
  "format_frequency_range ''470-512480-500'' = ''470-5124''"
  by code_simp

subsection \<open>Decision links\<close>

lemma links_loop_takeWhile:
  "links_loop lv acc rs = acc @ takeWhile (\<lambda>l. JStr l \<noteq> lv) (row_links rs)"
  by (induction rs arbitrary: acc)
     (auto simp: row_links_def List.map_filter_simps split: option.splits)

lemma extract_decision_links_takeWhile:
  "extract_decision_links rs lv = rev (takeWhile (\<lambda>l. JStr l \<noteq> lv) (row_links rs))"
  by (simp add: extract_decision_links_def links_loop_takeWhile)

lemma row_links_listing5:
  "row_links listing5 =
     [''https://ised-isde.canada.ca/d/5'', ''https://ised-isde.canada.ca/d/4'',
      ''https://ised-isde.canada.ca/d/3'', ''https://ised-isde.canada.ca/d/2'',
      ''https://ised-isde.canada.ca/d/1'']"
  by (simp add: row_links_def listing5_def List.map_filter_simps full_href_def startswith_def)

text \<open>
  Claim C2, as stated, fails: with the links L5, L4, L3, L2, L1 in source order and the
  cursor L3, the scan collects L5 and L4 and stops at L3, so the result is not
  \<open>[L1, L2]\<close>.
\<close>

theorem extract_decision_links_counterexample:
  "extract_decision_links listing5 (JStr ''https://ised-isde.canada.ca/d/3'')
     \<noteq> [''https://ised-isde.canada.ca/d/1'', ''https://ised-isde.canada.ca/d/2'']"
  by (simp add: extract_decision_links_def listing5_def full_href_def startswith_def)

text \<open>
  Claim C2, amended. When the rows carry the links L5, L4, L3, L2, L1 in source order
  (newest first) and the cursor is L3, different from L5 and L4, the result is
  \<open>[L4, L5]\<close>: the links newer than the cursor, oldest first. When there is no
  cursor the result is all the row links in reversed source order.
\<close>

theorem extract_decision_links_cursor:
  "(row_links decision_rows = [L5, L4, L3, L2, L1] \<and> L3 \<noteq> L5 \<and> L3 \<noteq> L4
      \<longrightarrow> extract_decision_links decision_rows (JStr L3) = [L4, L5])
   \<and> extract_decision_links decision_rows JNull = rev (row_links decision_rows)"
  by (auto simp: extract_decision_links_takeWhile)

theorem extract_decision_links_cursor_witness:
  "extract_decision_links listing5 (JStr ''https://ised-isde.canada.ca/d/3'')
     = [''https://ised-isde.canada.ca/d/4'', ''https://ised-isde.canada.ca/d/5'']
   \<and> extract_decision_links listing5 JNull = rev (row_links listing5)"
  using extract_decision_links_cursor [of listing5 "''https://ised-isde.canada.ca/d/5''"
      "''https://ised-isde.canada.ca/d/4''" "''https://ised-isde.canada.ca/d/3''"
      "''https://ised-isde.canada.ca/d/2''" "''https://ised-isde.canada.ca/d/1''"]
  by (simp add: row_links_listing5)

subsection \<open>The cursor file\<close>

lemma get_last_visited_absent: "get_last_visited \<lparr>on_write = w, content = Absent\<rparr> = Inr JNull"
  by (simp add: get_last_visited_def)

lemma get_last_visited_not_json: "get_last_visited \<lparr>on_write = w, content = NotJson\<rparr> = Inr JNull"
  by (simp add: get_last_visited_def)

lemma get_last_visited_object:
  "get_last_visited \<lparr>on_write = w, content = Json (JObj [(''last_visited'', JStr u)])\<rparr> = Inr (JStr u)"
  by (simp add: get_last_visited_def dict_get_def)

text \<open>
  Claim C7. \<open>get_last_visited\<close> is said never to raise, whatever the cursor file
  holds. A file that holds JSON which is not an object, here the array \<^verbatim>\<open>[]\<close>,
  is loaded without error, and \<^verbatim>\<open>data.get\<close> on the list raises AttributeError, which
  the handler for FileNotFoundError and JSONDecodeError does not catch.
\<close>

theorem get_last_visited_array:
  "get_last_visited \<lparr>on_write = Written, content = Json (JArr [])\<rparr> = Inl AttributeError"
  by (simp add: get_last_visited_def)

text \<open>
  Claim C9, as stated, fails where the file cannot be opened for writing:
  \<open>save_last_visited\<close> logs the IOError and returns, and the cursor read back is
  not the URL.
\<close>

theorem cursor_round_trip_counterexample:
  "get_last_visited
     (save_last_visited ''https://ised-isde.canada.ca/d/5'' \<lparr>on_write = OpenFails, content = Absent\<rparr>)
     \<noteq> Inr (JStr ''https://ised-isde.canada.ca/d/5'')"
  by (simp add: get_last_visited_def save_last_visited_def)

text \<open>
  What a write that raises leaves behind: the file as it was when the open raises, and
  after a write that broke off a file that is not JSON, which is read as no cursor.
\<close>

lemma save_last_visited_open_fails: "on_write f = OpenFails \<Longrightarrow> save_last_visited u f = f"
  by (simp add: save_last_visited_def)

lemma save_last_visited_broken_off:
  "on_write f = DumpFails False \<Longrightarrow> get_last_visited (save_last_visited u f) = Inr JNull"
  by (simp add: get_last_visited_def save_last_visited_def)

text \<open>
  Claim C9, amended. For every URL \<open>u\<close>, when \<open>save_last_visited u\<close> writes
  the file without an I/O error, \<open>save_last_visited u\<close> followed by
  \<open>get_last_visited\<close> returns exactly \<open>u\<close>, whatever the file held before.
\<close>

theorem cursor_round_trip:
  "on_write f = Written \<Longrightarrow> get_last_visited (save_last_visited u f) = Inr (JStr u)"
  by (simp add: get_last_visited_def save_last_visited_def dict_get_def)

theorem cursor_round_trip_witness:
  "get_last_visited
     (save_last_visited ''https://ised-isde.canada.ca/d/5'' \<lparr>on_write = Written, content = NotJson\<rparr>)
     = Inr (JStr ''https://ised-isde.canada.ca/d/5'')"
  using cursor_round_trip [of "\<lparr>on_write = Written, content = NotJson\<rparr>" "''https://ised-isde.canada.ca/d/5''"]
  by simp

subsection \<open>Decision tables\<close>

lemma split_tier_field_self: "split_tier_field f d f = None"
  by (simp add: split_tier_field_def Let_def split: option.splits)

lemma split_tier_field_other:
  "k \<noteq> f \<Longrightarrow> k \<noteq> ''Tier number'' \<Longrightarrow> k \<noteq> ''Geographic area of the licence'' \<Longrightarrow>
   split_tier_field f d k = d k"
  by (simp add: split_tier_field_def Let_def split: option.splits)

lemma split_tier_field_tier_number:
  "f \<noteq> ''Tier number'' \<Longrightarrow>
   split_tier_field f d ''Tier number'' =
     (if splittable d f then map_option first_word (d f) else d ''Tier number'')"
  by (auto simp: split_tier_field_def Let_def split_space1_def splittable_def first_word_def split: option.splits)

lemma split_tier_field_area:
  "f \<noteq> ''Geographic area of the licence'' \<Longrightarrow>
   split_tier_field f d ''Geographic area of the licence'' =
     (if splittable d f then map_option after_first_space (d f) else d ''Geographic area of the licence'')"
  by (auto simp: split_tier_field_def Let_def split_space1_def splittable_def after_first_space_def split: option.splits)

lemma split_tier_field_keeps:
  "g \<noteq> f \<Longrightarrow> g \<noteq> ''Tier number'' \<Longrightarrow> g \<noteq> ''Geographic area of the licence'' \<Longrightarrow>
   splittable (split_tier_field f d) g = splittable d g"
  by (simp add: splittable_def split_tier_field_other)

lemma format_field_other: "k \<noteq> f \<Longrightarrow> format_field f d k = d k"
  by (simp add: format_field_def split: option.splits)

lemma tier_fields_distinct_from_targets:
  "g \<in> set tier_fields \<Longrightarrow> g \<noteq> ''Tier number'' \<and> g \<noteq> ''Geographic area of the licence'' \<and> g \<noteq> ''Table Title''
     \<and> g \<noteq> ''Frequency range (MHz)'' \<and> g \<noteq> ''Frequency range (MHz) of the primary licence''
     \<and> g \<noteq> ''Frequency range (MHz) of the subordinate licence''"
  by (auto simp: tier_fields_def)

lemma fold_split_removed:
  "g \<in> set tier_fields \<Longrightarrow> fold split_tier_field tier_fields d g = None"
  by (auto simp: tier_fields_def split_tier_field_self split_tier_field_other)

lemma fold_split_tier_number:
  "fold split_tier_field tier_fields d ''Tier number'' =
     (case chosen_field d of None \<Rightarrow> d ''Tier number'' | Some f \<Rightarrow> map_option first_word (d f))"
  by (simp add: tier_fields_def chosen_field_def split_tier_field_tier_number
        split_tier_field_keeps split_tier_field_other)

lemma fold_split_area:
  "fold split_tier_field tier_fields d ''Geographic area of the licence'' =
     (case chosen_field d of None \<Rightarrow> d ''Geographic area of the licence''
      | Some f \<Rightarrow> map_option after_first_space (d f))"
  by (simp add: tier_fields_def chosen_field_def split_tier_field_area
        split_tier_field_keeps split_tier_field_other)

lemma format_fields_other:
  "k \<noteq> ''Frequency range (MHz)'' \<Longrightarrow> k \<noteq> ''Frequency range (MHz) of the primary licence'' \<Longrightarrow>
   k \<noteq> ''Frequency range (MHz) of the subordinate licence'' \<Longrightarrow> format_fields d k = d k"
  by (simp add: format_fields_def format_field_other)

lemma splittable_format_fields:
  "g \<in> set tier_fields \<Longrightarrow> splittable (format_fields d) g = splittable d g"
  using tier_fields_distinct_from_targets [of g] by (simp add: splittable_def format_fields_other)

lemma chosen_field_format_fields: "chosen_field (format_fields d) = chosen_field d"
  unfolding chosen_field_def by (rule find_cong) (auto simp: splittable_format_fields)

lemma chosen_field_in: "chosen_field d = Some f \<Longrightarrow> f \<in> set tier_fields"
proof -
  assume "chosen_field d = Some f"
  then obtain i where "i < length (rev tier_fields)" "f = rev tier_fields ! i"
    unfolding chosen_field_def find_Some_iff by blast
  then have "f \<in> set (rev tier_fields)"
    using nth_mem by blast
  then show ?thesis by simp
qed

lemma process_record_removed: "g \<in> set tier_fields \<Longrightarrow> process_record table_title d g = None"
  using tier_fields_distinct_from_targets [of g] by (simp add: process_record_def fold_split_removed)

lemma process_record_tier_number:
  "process_record table_title d ''Tier number'' =
     (case chosen_field d of None \<Rightarrow> d ''Tier number'' | Some f \<Rightarrow> map_option first_word (d f))"
proof -
  have "process_record table_title d ''Tier number'' = fold split_tier_field tier_fields (format_fields d) ''Tier number''"
    by (simp add: process_record_def)
  also have "\<dots> = (case chosen_field d of None \<Rightarrow> format_fields d ''Tier number''
      | Some f \<Rightarrow> map_option first_word (format_fields d f))"
    by (simp add: fold_split_tier_number chosen_field_format_fields)
  also have "\<dots> = (case chosen_field d of None \<Rightarrow> d ''Tier number'' | Some f \<Rightarrow> map_option first_word (d f))"
    using tier_fields_distinct_from_targets
    by (auto simp: format_fields_other split: option.splits dest!: chosen_field_in)
  finally show ?thesis .
qed

lemma process_record_area:
  "process_record table_title d ''Geographic area of the licence'' =
     (case chosen_field d of None \<Rightarrow> d ''Geographic area of the licence''
      | Some f \<Rightarrow> map_option after_first_space (d f))"
proof -
  have "process_record table_title d ''Geographic area of the licence''
          = fold split_tier_field tier_fields (format_fields d) ''Geographic area of the licence''"
    by (simp add: process_record_def)
  also have "\<dots> = (case chosen_field d of None \<Rightarrow> format_fields d ''Geographic area of the licence''
      | Some f \<Rightarrow> map_option after_first_space (format_fields d f))"
    by (simp add: fold_split_area chosen_field_format_fields)
  also have "\<dots> = (case chosen_field d of None \<Rightarrow> d ''Geographic area of the licence''
      | Some f \<Rightarrow> map_option after_first_space (d f))"
    using tier_fields_distinct_from_targets
    by (auto simp: format_fields_other split: option.splits dest!: chosen_field_in)
  finally show ?thesis .
qed

lemma chosen_field_last:
  assumes "field \<in> set tier_fields" "splittable d field" "\<forall>g \<in> set (later_fields field). \<not> splittable d g"
  shows "chosen_field d = Some field"
  using assms by (auto simp: tier_fields_def chosen_field_def later_fields_def)

lemma chosen_field_none:
  "\<forall>g \<in> set tier_fields. \<not> splittable d g \<Longrightarrow> chosen_field d = None"
  by (auto simp: chosen_field_def find_None_iff)

lemma rows_loop_length:
  "rows_loop table_title headers rs = Inr recs \<Longrightarrow> length recs = length rs"
  by (induction rs arbitrary: recs) (auto split: sum.splits)

lemma rows_loop_nth:
  "rows_loop table_title headers rs = Inr recs \<Longrightarrow> i < length rs \<Longrightarrow>
   row_dict headers (tds (rs ! i)) = Inr d \<Longrightarrow> recs ! i = process_record table_title d"
proof (induction rs arbitrary: recs i)
  case Nil
  then show ?case by simp
next
  case (Cons r rs)
  then show ?case
    by (cases i) (auto split: sum.splits)
qed

text \<open>
  Claim C6, amended. Take the record \<open>d\<close> built from a data row of the table and
  the record \<open>recs ! i\<close> that \<open>extract_data\<close> returns for that row. All three
  combined fields are removed. When a combined field has a value with a space in it,
  and no combined field later in the loop has one, \<open>Tier number\<close> is the text
  before the first space of that value and \<open>Geographic area of the licence\<close> is
  everything after that space. When no combined field has a space in its value, the two
  fields are what the row had: none is written.
\<close>

theorem extract_data_tier_split:
  assumes "extract_data (Some (Soup (Some t))) = Inr recs"
    and "trs t = hr # rs" and "i < length rs"
    and "row_dict (map nbsp_to_space (ths hr)) (tds (rs ! i)) = Inr d"
  shows "(\<forall>g \<in> set tier_fields. (recs ! i) g = None)
     \<and> (\<forall>field v. field \<in> set tier_fields \<and> d field = Some v \<and> CHR '' '' \<in> set v
                    \<and> (\<forall>g \<in> set (later_fields field). \<not> splittable d g)
          \<longrightarrow> (recs ! i) ''Tier number'' = Some (first_word v)
              \<and> (recs ! i) ''Geographic area of the licence'' = Some (after_first_space v))
     \<and> ((\<forall>g \<in> set tier_fields. \<not> splittable d g)
          \<longrightarrow> (recs ! i) ''Tier number'' = d ''Tier number''
              \<and> (recs ! i) ''Geographic area of the licence'' = d ''Geographic area of the licence'')"
proof -
  define tt where "tt = (case caption t of None \<Rightarrow> ''Unknown Table Title'' | Some c \<Rightarrow> c)"
  have "rows_loop tt (map nbsp_to_space (ths hr)) rs = Inr recs"
    using assms(1,2) by (simp add: tt_def)
  then have rec: "recs ! i = process_record tt d"
    using assms(3,4) by (rule rows_loop_nth)
  have removed: "\<forall>g \<in> set tier_fields. (recs ! i) g = None"
    by (simp add: rec process_record_removed)
  have split: "(recs ! i) ''Tier number'' = Some (first_word v)
      \<and> (recs ! i) ''Geographic area of the licence'' = Some (after_first_space v)"
    if "field \<in> set tier_fields" "d field = Some v" "CHR '' '' \<in> set v"
       "\<forall>g \<in> set (later_fields field). \<not> splittable d g" for field v
  proof -
    have "splittable d field" using that(2,3) by (simp add: splittable_def)
    then have "chosen_field d = Some field"
      using that(1,4) by (simp add: chosen_field_last)
    then show ?thesis
      using that(2) by (simp add: rec process_record_tier_number process_record_area)
  qed
  have kept: "(recs ! i) ''Tier number'' = d ''Tier number''
      \<and> (recs ! i) ''Geographic area of the licence'' = d ''Geographic area of the licence''"
    if "\<forall>g \<in> set tier_fields. \<not> splittable d g"
    using chosen_field_none [OF that]
    by (simp add: rec process_record_tier_number process_record_area)
  from removed split kept show ?thesis by blast
qed

theorem extract_data_tier_split_witness:
  "fields_of [''Tier number'', ''Geographic area of the licence'',
              ''Tier number and geographic area of the licence'']
     (extract_data (Some (Soup (Some page_tier3))))
   = Inr [[Some ''Tier'', Some ''3 Southern Ontario'', None]]"
proof -
  let ?v = "''Tier 3 Southern Ontario''"
  let ?f = "''Tier number and geographic area of the licence''"
  let ?hr = "\<lparr>ths = [''Licensee'', ?f], tds = []\<rparr>"
  let ?r = "\<lparr>ths = [], tds = [''Acme Wireless'', ?v]\<rparr>"
  let ?d = "[''Licensee'' \<mapsto> ''Acme Wireless'', ?f \<mapsto> ?v]"
  have rd: "row_dict (map nbsp_to_space (ths ?hr)) (tds ([?r] ! 0)) = Inr ?d"
    by (simp add: row_dict_def nbsp_to_space_def)
  have ex: "extract_data (Some (Soup (Some page_tier3)))
              = Inr [process_record ''Spectrum licence transfer'' ?d]"
    using rd by (simp add: page_tier3_def)
  have t: "trs page_tier3 = ?hr # [?r]"
    by (simp add: page_tier3_def)
  have later: "\<forall>g \<in> set (later_fields ?f). \<not> splittable ?d g"
    by (simp add: later_fields_def tier_fields_def splittable_def)
  have len: "0 < length [?r]"
    by simp
  have fld: "?f \<in> set tier_fields \<and> ?d ?f = Some ?v \<and> CHR '' '' \<in> set ?v
      \<and> (\<forall>g \<in> set (later_fields ?f). \<not> splittable ?d g)"
    using later by (simp add: tier_fields_def)
  note all = extract_data_tier_split [OF ex t len rd]
  from all have removed: "\<forall>g \<in> set tier_fields. ([process_record ''Spectrum licence transfer'' ?d] ! 0) g = None"
    by (rule conjunct1)
  from all have "\<forall>field v. field \<in> set tier_fields \<and> ?d field = Some v \<and> CHR '' '' \<in> set v
                    \<and> (\<forall>g \<in> set (later_fields field). \<not> splittable ?d g)
          \<longrightarrow> ([process_record ''Spectrum licence transfer'' ?d] ! 0) ''Tier number'' = Some (first_word v)
              \<and> ([process_record ''Spectrum licence transfer'' ?d] ! 0) ''Geographic area of the licence''
                  = Some (after_first_space v)"
    by (rule conjunct1 [OF conjunct2])
  then have "([process_record ''Spectrum licence transfer'' ?d] ! 0) ''Tier number'' = Some (first_word ?v)
      \<and> ([process_record ''Spectrum licence transfer'' ?d] ! 0) ''Geographic area of the licence''
          = Some (after_first_space ?v)"
    using fld by blast
  moreover have "([process_record ''Spectrum licence transfer'' ?d] ! 0) ?f = None"
    using removed by (simp add: tier_fields_def)
  ultimately show ?thesis
    unfolding ex by (simp add: fields_of_def first_word_def after_first_space_def)
qed

text \<open>
  Claim C6, as stated, fails for a combined field whose value has no space, here
  \<^verbatim>\<open>3-042\<close>: \<^verbatim>\<open>split(' ', 1)\<close> gives one part, the guard
  \<^verbatim>\<open>len(parts) == 2\<close> is false, and the record gets neither a \<open>Tier number\<close>
  nor a \<open>Geographic area of the licence\<close> field; the combined field is removed.
\<close>

theorem extract_data_tier_split_counterexample:
  "fields_of [''Tier number'', ''Geographic area of the licence'',
              ''Tier number and geographic area of the licence'']
     (extract_data (Some (Soup (Some page_no_space))))
   = Inr [[None, None, None]]"
  by (simp add: page_no_space_def row_dict_def nbsp_to_space_def fields_of_def process_record_def
        tier_fields_def split_tier_field_def split_space1_def format_fields_def format_field_def)

section \<open>Properties of the tier loader\<close>

lemma rows_rename_cols: "rows (rename_cols m g) = rows g"
  by (simp add: rename_cols_def)

lemma sjoin_left_keeps:
  assumes "l \<in> set (rows left)"
  shows "\<exists>r \<in> set (rows (sjoin_left isect left right)). take (length l) r = l"
proof (cases "hits isect right (geom_of (columns left) l)")
  case Nil
  then have "l @ Null # map (\<lambda>c. Null) (attr_cols right) \<in> set (rows (sjoin_left isect left right))"
    using assms by (force simp: sjoin_left_def)
  then show ?thesis by (rule bexI [rotated]) simp
next
  case (Cons j js)
  then have "l @ Idx j # map (cell_of (columns right) (rows right ! j)) (attr_cols right)
      \<in> set (rows (sjoin_left isect left right))"
    using assms by (force simp: sjoin_left_def)
  then show ?thesis by (rule bexI [rotated]) simp
qed

lemma sjoin_left_unmatched:
  assumes "l \<in> set (rows left)" and "hits isect right (geom_of (columns left) l) = []"
  shows "l @ Null # map (\<lambda>c. Null) (attr_cols right) \<in> set (rows (sjoin_left isect left right))"
  using assms by (force simp: sjoin_left_def)

lemma hits_empty:
  assumes "\<forall>r \<in> set (rows right). \<not> features_intersect isect lcols l (columns right) r"
  shows "hits isect right (geom_of lcols l) = []"
proof (cases "geom_of lcols l")
  case None
  then show ?thesis by (simp add: hits_def)
next
  case (Some a)
  have "\<not> (case geom_of (columns right) (rows right ! j) of None \<Rightarrow> False | Some b \<Rightarrow> isect a b)"
    if "j < length (rows right)" for j
    using assms that Some nth_mem [OF that] by (auto simp: features_intersect_def)
  then show ?thesis
    using Some by (auto simp: hits_def filter_empty_conv)
qed

lemma geom_of_select:
  "geom_of [area_col, ''geometry''] [cell_of cols r area_col, cell_of cols r ''geometry''] = geom_of cols r"
  by (simp add: geom_of_def cell_of_def area_col_def)

lemma select_cols_area:
  assumes "select_cols [area_col, ''geometry''] prev = Inr right"
  shows "columns right = [area_col, ''geometry'']"
    and "rows right = map (\<lambda>r. map (cell_of (columns prev) r) [area_col, ''geometry'']) (rows prev)"
    and "attr_cols right = [area_col]"
  using assms by (auto simp: select_cols_def attr_cols_def area_col_def split: if_splits)

lemma features_intersect_select:
  assumes "select_cols [area_col, ''geometry''] prev = Inr right"
    and "\<forall>p \<in> set (rows prev). \<not> features_intersect isect lcols l (columns prev) p"
  shows "\<forall>r \<in> set (rows right). \<not> features_intersect isect lcols l (columns right) r"
  using assms(2) unfolding select_cols_area [OF assms(1)]
  by (auto simp: features_intersect_def geom_of_select split: option.splits)

lemma join_tier_rows:
  assumes "join_tier isect tier prev tier_gdf = Inr joined"
  obtains right where "select_cols [area_col, ''geometry''] prev = Inr right"
    and "rows joined = rows (sjoin_left isect tier_gdf right)"
    and "columns joined = columns (rename_cols
                 [(area_col @ ''_left'', area_col), (area_col @ ''_right'', parent_col tier)]
                 (sjoin_left isect tier_gdf right))"
  using assms by (auto simp: join_tier_def parent_col_def rows_rename_cols split: sum.splits)

text \<open>
  Claim C5. The join of a tier layer against its parent layer keeps every feature: each
  row of the tier layer is the beginning of a row of the joined layer. A feature that
  intersects no feature of the parent layer is kept once more precisely: its row
  followed by a missing row index and a missing parent-area identifier is a row of the
  joined layer. The joined layer has two columns more than the tier layer, and when the
  tier layer has the area column the last one is the parent-area column.
\<close>

theorem join_tier_left_join:
  assumes "join_tier isect tier prev tier_gdf = Inr joined"
  shows "(\<forall>l \<in> set (rows tier_gdf). \<exists>r \<in> set (rows joined). take (length l) r = l)
     \<and> (\<forall>l \<in> set (rows tier_gdf).
           (\<forall>p \<in> set (rows prev). \<not> features_intersect isect (columns tier_gdf) l (columns prev) p)
           \<longrightarrow> l @ [Null, Null] \<in> set (rows joined))
     \<and> length (columns joined) = length (columns tier_gdf) + 2
     \<and> (area_col \<in> set (columns tier_gdf) \<longrightarrow> last (columns joined) = parent_col tier)"
proof -
  from assms obtain right where sel: "select_cols [area_col, ''geometry''] prev = Inr right"
    and rws: "rows joined = rows (sjoin_left isect tier_gdf right)"
    and cls: "columns joined = columns (rename_cols
                 [(area_col @ ''_left'', area_col), (area_col @ ''_right'', parent_col tier)]
                 (sjoin_left isect tier_gdf right))"
    by (rule join_tier_rows)
  have kept: "\<forall>l \<in> set (rows tier_gdf). \<exists>r \<in> set (rows joined). take (length l) r = l"
    unfolding rws by (blast intro: sjoin_left_keeps)
  have unmatched: "l @ [Null, Null] \<in> set (rows joined)"
    if "l \<in> set (rows tier_gdf)"
      and "\<forall>p \<in> set (rows prev). \<not> features_intersect isect (columns tier_gdf) l (columns prev) p" for l
  proof -
    have "hits isect right (geom_of (columns tier_gdf) l) = []"
      using features_intersect_select [OF sel that(2)] by (rule hits_empty)
    from sjoin_left_unmatched [OF that(1) this] show ?thesis
      by (simp add: rws select_cols_area(3) [OF sel])
  qed
  have len: "length (columns joined) = length (columns tier_gdf) + 2"
    by (simp add: cls rename_cols_def sjoin_left_def select_cols_area(3) [OF sel])
  have lst: "last (columns joined) = parent_col tier" if "area_col \<in> set (columns tier_gdf)"
  proof -
    have "area_col \<in> set (attr_cols tier_gdf)"
      using that by (simp add: attr_cols_def area_col_def)
    then show ?thesis
      by (simp add: cls rename_cols_def sjoin_left_def select_cols_area(3) [OF sel])
  qed
  from kept unmatched len lst show ?thesis by blast
qed

lemma join_tier_example:
  "join_tier (=) 2 tier1_layer tier2_layer =
     Inr \<lparr>columns = [''Service_Area_Zone_de_service'', ''geometry'', ''index_right'',
                      ''Tier1_Service_Area_Zone_de_service''],
          rows = [[Val ''2-01'', Geo 4, Idx 0, Val ''1-01''], [Val ''2-02'', Geo 7, Null, Null]]\<rparr>"
  by code_simp

theorem join_tier_left_join_witness:
  "\<exists>joined. join_tier (=) 2 tier1_layer tier2_layer = Inr joined
      \<and> [Val ''2-02'', Geo 7] @ [Null, Null] \<in> set (rows joined)
      \<and> (\<exists>r \<in> set (rows joined). take 2 r = [Val ''2-01'', Geo 4])
      \<and> last (columns joined) = ''Tier1_Service_Area_Zone_de_service''"
proof -
  let ?J = "\<lparr>columns = [''Service_Area_Zone_de_service'', ''geometry'', ''index_right'',
                      ''Tier1_Service_Area_Zone_de_service''],
          rows = [[Val ''2-01'', Geo 4, Idx 0, Val ''1-01''], [Val ''2-02'', Geo (7::nat), Null, Null]]\<rparr>"
  have e: "join_tier (=) 2 tier1_layer tier2_layer = Inr ?J"
    by (rule join_tier_example)
  note all = join_tier_left_join [OF e]
  have far: "\<forall>p \<in> set (rows tier1_layer).
      \<not> features_intersect (=) (columns tier2_layer) [Val ''2-02'', Geo 7] (columns tier1_layer) p"
    by (simp add: tier1_layer_def tier2_layer_def features_intersect_def geom_of_def cell_of_def)
  have mem: "[Val ''2-02'', Geo 7] \<in> set (rows tier2_layer)" "[Val ''2-01'', Geo 4] \<in> set (rows tier2_layer)"
    by (simp_all add: tier2_layer_def)
  have "[Val ''2-02'', Geo 7] @ [Null, Null] \<in> set (rows ?J)"
    using all mem(1) far by blast
  moreover have "\<exists>r \<in> set (rows ?J). take (length [Val ''2-01'', Geo (4::nat)]) r = [Val ''2-01'', Geo 4]"
    using all mem(2) by blast
  moreover have "last (columns ?J) = ''Tier1_Service_Area_Zone_de_service''"
    by simp
  ultimately show ?thesis
    using e by simp
qed

text \<open>
  Claim C3. A missing tier is said to be skipped while every present tier still gets its
  layer, also when the first present tier number is greater than 1. With a file for
  tier 2 and none for tier 1 the loop skips tier 1 and then reads
  \<^verbatim>\<open>tier_gdfs[-1]\<close> of the empty list: IndexError, and no layer is returned.
\<close>

theorem load_and_join_tiers_first_tier_missing:
  "load_and_join_tiers isect archive_tier2_only 2 = Inl IndexError"
  by (simp add: load_and_join_tiers_def archive_tier2_only_def upt_rec)



subsection \<open>Table names\<close>

text \<open>Different numbers have different decimal numerals, so different tiers have different tables.\<close>

lemma digit_char_inj: "a < 10 \<Longrightarrow> b < 10 \<Longrightarrow> digit_char a = digit_char b \<Longrightarrow> a = b"
proof -
  assume a: "a < 10" and b: "b < 10" and e: "digit_char a = digit_char b"
  have v: "of_char (digit_char d) = 48 + d" if "d < 10" for d :: nat
  proof -
    from that have "d = 0 \<or> d = 1 \<or> d = 2 \<or> d = 3 \<or> d = 4 \<or> d = 5 \<or> d = 6 \<or> d = 7 \<or> d = 8 \<or> d = 9"
      by arith
    then show ?thesis
      by (elim disjE) (simp_all add: digit_char_def)
  qed
  from e have "(of_char (digit_char a) :: nat) = of_char (digit_char b)" by simp
  with v [OF a] v [OF b] show ?thesis by linarith
qed

lemma show_nat_nonempty: "show_nat n \<noteq> []"
  by (subst show_nat.simps) simp

lemma show_nat_inj: "show_nat n = show_nat m \<Longrightarrow> n = m"
proof (induction n arbitrary: m rule: show_nat.induct)
  case (1 n)
  show ?case
  proof (cases "n < 10")
    case True
    show ?thesis
    proof (cases "m < 10")
      case mt: True
      from "1.prems" True mt have "digit_char n = digit_char m"
        by (simp add: show_nat.simps [of n] show_nat.simps [of m])
      then show ?thesis using True mt by (rule digit_char_inj [rotated 2])
    next
      case False
      from "1.prems" True False have "[digit_char n] = show_nat (m div 10) @ [digit_char (m mod 10)]"
        by (simp add: show_nat.simps [of n] show_nat.simps [of m])
      then show ?thesis using show_nat_nonempty [of "m div 10"] by simp
    qed
  next
    case False
    show ?thesis
    proof (cases "m < 10")
      case True
      from "1.prems" True False have "show_nat (n div 10) @ [digit_char (n mod 10)] = [digit_char m]"
        by (simp add: show_nat.simps [of n] show_nat.simps [of m])
      then show ?thesis using show_nat_nonempty [of "n div 10"] by simp
    next
      case mf: False
      from "1.prems" False mf
      have "show_nat (n div 10) @ [digit_char (n mod 10)] = show_nat (m div 10) @ [digit_char (m mod 10)]"
        by (simp add: show_nat.simps [of n] show_nat.simps [of m])
      then have a: "show_nat (n div 10) = show_nat (m div 10)" and b: "digit_char (n mod 10) = digit_char (m mod 10)"
        by simp_all
      from "1.IH" [OF False a] have "n div 10 = m div 10" .
      moreover from b have "n mod 10 = m mod 10"
        by (rule digit_char_inj [rotated 2]) simp_all
      ultimately show ?thesis
        by (metis div_mult_mod_eq)
    qed
  qed
qed

lemma tier_table_inj: "tier_table a = tier_table b \<Longrightarrow> a = b"
  by (simp add: tier_table_def show_nat_inj)

lemma tier_table_neq: "a \<noteq> b \<Longrightarrow> tier_table a \<noteq> tier_table b"
  using tier_table_inj by blast

text \<open>One pass of the loop body on the store: create the table if it is absent, insert the rows.\<close>

lemma ensure_insert_rows:
  "table_rows (insert_rows n rs (if \<not> table_exists conn n then create_table n sch conn else conn)) n
     = table_rows conn n @ rs"
  by (auto simp: table_rows_def insert_rows_def table_exists_def create_table_def split: option.splits)

lemma ensure_insert_other:
  "m \<noteq> n \<Longrightarrow>
   insert_rows n rs (if \<not> table_exists conn n then create_table n sch conn else conn) m = conn m"
  by (auto simp: insert_rows_def table_exists_def create_table_def split: option.splits)

lemma ensure_insert_keeps:
  "conn m = Some t \<Longrightarrow>
   \<exists>t'. insert_rows n rs (if \<not> table_exists conn n then create_table n sch conn else conn) m = Some t'
      \<and> schema t' = schema t \<and> (\<exists>added. contents t' = contents t @ added)"
  by (auto simp: insert_rows_def table_exists_def create_table_def split: option.splits)

text \<open>
  What the loop of \<open>create_and_populate_tables\<close> does to the store when it returns:
  it leaves every table alone whose name is not the name of one of its positions, it
  appends the rows of the layer at position \<open>i\<close> to the table of that position, it
  keeps the schema and the rows of every table that was there, and whether it returns
  depends on the layers only.
\<close>

lemma populate_loop_untouched:
  "populate_loop to_str wkt conn k gs = Inr conn' \<Longrightarrow>
   (\<forall>j < length gs. n \<noteq> tier_table (k + j)) \<Longrightarrow> conn' n = conn n"
proof (induction gs arbitrary: conn k)
  case Nil
  then show ?case by simp
next
  case (Cons g gs)
  from Cons.prems(1) obtain rs where rs: "rows_to_insert to_str wkt g = Inr rs"
    and rest: "populate_loop to_str wkt
        (insert_rows (tier_table k) rs
           (if \<not> table_exists conn (tier_table k) then create_table (tier_table k) (schema_of g) conn else conn))
        (Suc k) gs = Inr conn'"
    by (auto simp: Let_def split: sum.splits)
  have "\<forall>j < length gs. n \<noteq> tier_table (Suc k + j)"
    using Cons.prems(2) by force
  from Cons.IH [OF rest this] have "conn' n = insert_rows (tier_table k) rs
           (if \<not> table_exists conn (tier_table k) then create_table (tier_table k) (schema_of g) conn else conn) n" .
  moreover have "n \<noteq> tier_table k"
    using Cons.prems(2) by force
  ultimately show ?case
    by (simp add: ensure_insert_other)
qed

lemma populate_loop_rows:
  "populate_loop to_str wkt conn k gs = Inr conn' \<Longrightarrow> i < length gs \<Longrightarrow>
   \<exists>rs. rows_to_insert to_str wkt (gs ! i) = Inr rs
      \<and> table_rows conn' (tier_table (k + i)) = table_rows conn (tier_table (k + i)) @ rs"
proof (induction gs arbitrary: conn k i)
  case Nil
  then show ?case by simp
next
  case (Cons g gs)
  let ?c = "\<lambda>rs. insert_rows (tier_table k) rs
           (if \<not> table_exists conn (tier_table k) then create_table (tier_table k) (schema_of g) conn else conn)"
  from Cons.prems(1) obtain rs where rs: "rows_to_insert to_str wkt g = Inr rs"
    and rest: "populate_loop to_str wkt (?c rs) (Suc k) gs = Inr conn'"
    by (auto simp: Let_def split: sum.splits)
  show ?case
  proof (cases i)
    case 0
    have "\<forall>j < length gs. tier_table k \<noteq> tier_table (Suc k + j)"
      by (simp add: tier_table_neq)
    from populate_loop_untouched [OF rest this]
    have "table_rows conn' (tier_table k) = table_rows (?c rs) (tier_table k)"
      by (simp add: table_rows_def)
    then show ?thesis
      using 0 rs by (simp add: ensure_insert_rows)
  next
    case (Suc i')
    with Cons.prems(2) have "i' < length gs" by simp
    from Cons.IH [OF rest this] obtain rs' where
      "rows_to_insert to_str wkt (gs ! i') = Inr rs'"
      "table_rows conn' (tier_table (Suc k + i')) = table_rows (?c rs) (tier_table (Suc k + i')) @ rs'"
      by blast
    moreover have "table_rows (?c rs) (tier_table (Suc k + i')) = table_rows conn (tier_table (Suc k + i'))"
      using ensure_insert_other [of "tier_table (Suc k + i')" "tier_table k" rs conn "schema_of g"]
      by (simp add: table_rows_def tier_table_neq)
    ultimately show ?thesis
      using Suc by simp
  qed
qed

lemma populate_loop_keeps:
  "populate_loop to_str wkt conn k gs = Inr conn' \<Longrightarrow> conn n = Some t \<Longrightarrow>
   \<exists>t'. conn' n = Some t' \<and> schema t' = schema t \<and> (\<exists>added. contents t' = contents t @ added)"
proof (induction gs arbitrary: conn k t)
  case Nil
  then show ?case by simp
next
  case (Cons g gs)
  let ?c = "\<lambda>rs. insert_rows (tier_table k) rs
           (if \<not> table_exists conn (tier_table k) then create_table (tier_table k) (schema_of g) conn else conn)"
  from Cons.prems(1) obtain rs where rs: "rows_to_insert to_str wkt g = Inr rs"
    and rest: "populate_loop to_str wkt (?c rs) (Suc k) gs = Inr conn'"
    by (auto simp: Let_def split: sum.splits)
  from ensure_insert_keeps [of conn n t "tier_table k" rs "schema_of g"] Cons.prems(2)
  obtain t1 added1 where t1: "?c rs n = Some t1" "schema t1 = schema t" "contents t1 = contents t @ added1"
    by blast
  from Cons.IH [OF rest t1(1)] obtain t' added where
    "conn' n = Some t'" "schema t' = schema t1" "contents t' = contents t1 @ added"
    by blast
  then show ?case
    using t1 by simp
qed

lemma populate_loop_again:
  "populate_loop to_str wkt conn k gs = Inr conn' \<Longrightarrow>
   \<exists>conn''. populate_loop to_str wkt other k' gs = Inr conn''"
proof (induction gs arbitrary: conn k other k')
  case Nil
  then show ?case by simp
next
  case (Cons g gs)
  from Cons.prems obtain rs c where rs: "rows_to_insert to_str wkt g = Inr rs"
    and rest: "populate_loop to_str wkt c (Suc k) gs = Inr conn'"
    by (auto simp: Let_def split: sum.splits)
  from Cons.IH [OF rest] show ?case
    by (simp add: rs Let_def)
qed


text \<open>
  Claim C4. When \<open>create_and_populate_tables\<close> has run on a store and some layers,
  it runs again on the resulting store and the same layers, and then the table of
  each layer holds the rows it held at the start followed by the layer's rows twice:
  the second run appends them again. No table that existed at the start is created
  anew or loses a row: it keeps its schema, and its rows at the start are the beginning
  of its rows at the end.
\<close>

theorem create_and_populate_tables_twice:
  assumes "create_and_populate_tables to_str wkt conn tier_gdfs = Inr conn1"
  shows "\<exists>conn2. create_and_populate_tables to_str wkt conn1 tier_gdfs = Inr conn2
     \<and> (\<forall>i < length tier_gdfs. \<exists>rs. rows_to_insert to_str wkt (tier_gdfs ! i) = Inr rs
           \<and> table_rows conn2 (tier_table (i + 1)) = table_rows conn (tier_table (i + 1)) @ rs @ rs)
     \<and> (\<forall>n t. conn n = Some t \<longrightarrow>
           (\<exists>t2 added. conn2 n = Some t2 \<and> schema t2 = schema t \<and> contents t2 = contents t @ added))"
proof -
  from assms have run1: "populate_loop to_str wkt conn 1 tier_gdfs = Inr conn1"
    by (simp add: create_and_populate_tables_def)
  from populate_loop_again [OF run1] obtain conn2
    where run2: "populate_loop to_str wkt conn1 1 tier_gdfs = Inr conn2"
    by blast
  have twice: "\<exists>rs. rows_to_insert to_str wkt (tier_gdfs ! i) = Inr rs
           \<and> table_rows conn2 (tier_table (i + 1)) = table_rows conn (tier_table (i + 1)) @ rs @ rs"
    if "i < length tier_gdfs" for i
  proof -
    from populate_loop_rows [OF run1 that] obtain rs where
      "rows_to_insert to_str wkt (tier_gdfs ! i) = Inr rs"
      "table_rows conn1 (tier_table (1 + i)) = table_rows conn (tier_table (1 + i)) @ rs"
      by blast
    moreover from populate_loop_rows [OF run2 that] obtain rs' where
      "rows_to_insert to_str wkt (tier_gdfs ! i) = Inr rs'"
      "table_rows conn2 (tier_table (1 + i)) = table_rows conn1 (tier_table (1 + i)) @ rs'"
      by blast
    ultimately show ?thesis by (simp add: add.commute)
  qed
  have kept: "\<exists>t2 added. conn2 n = Some t2 \<and> schema t2 = schema t \<and> contents t2 = contents t @ added"
    if "conn n = Some t" for n t
  proof -
    from populate_loop_keeps [OF run1 that] obtain t1 a1 where
      t1: "conn1 n = Some t1" "schema t1 = schema t" "contents t1 = contents t @ a1"
      by blast
    from populate_loop_keeps [OF run2 t1(1)] obtain t2 a2 where
      "conn2 n = Some t2" "schema t2 = schema t1" "contents t2 = contents t1 @ a2"
      by blast
    with t1 show ?thesis by simp
  qed
  from run2 twice kept show ?thesis
    by (auto simp: create_and_populate_tables_def)
qed

lemma rows_to_insert_tier1: "rows_to_insert cell_text point_wkt tier1_layer = Inr [[''1-01'', ''POINT (4 0)'']]"
  by code_simp

lemma tier_table_1: "tier_table (Suc 0) = ''Tier1_Areas''"
  by code_simp

theorem create_and_populate_tables_twice_witness:
  "\<exists>conn1 conn2.
      create_and_populate_tables cell_text point_wkt Map.empty [tier1_layer] = Inr conn1
    \<and> create_and_populate_tables cell_text point_wkt conn1 [tier1_layer] = Inr conn2
    \<and> table_rows conn2 ''Tier1_Areas'' = [[''1-01'', ''POINT (4 0)''], [''1-01'', ''POINT (4 0)'']]"
proof -
  obtain conn1 where run1: "create_and_populate_tables cell_text point_wkt Map.empty [tier1_layer] = Inr conn1"
    by (simp add: create_and_populate_tables_def rows_to_insert_tier1 Let_def)
  from create_and_populate_tables_twice [OF run1] obtain conn2 where
    run2: "create_and_populate_tables cell_text point_wkt conn1 [tier1_layer] = Inr conn2"
    and rows: "\<forall>i < length [tier1_layer]. \<exists>rs. rows_to_insert cell_text point_wkt ([tier1_layer] ! i) = Inr rs
           \<and> table_rows conn2 (tier_table (i + 1)) = table_rows Map.empty (tier_table (i + 1)) @ rs @ rs"
    by blast
  from rows have "table_rows conn2 ''Tier1_Areas'' = [[''1-01'', ''POINT (4 0)''], [''1-01'', ''POINT (4 0)'']]"
    by (simp add: rows_to_insert_tier1 tier_table_1 table_rows_def)
  with run1 run2 show ?thesis by blast
qed








section \<open>Properties of the exporter\<close>

lemma convert_row_nth:
  "length xs = length cs \<Longrightarrow> j < length cs \<Longrightarrow>
   convert_row wkt_loads cs xs ! j =
     (if cs ! j = ''Geometry'' then convert_geometry wkt_loads (xs ! j) else as_cell (xs ! j))"
proof (induction cs xs arbitrary: j rule: list_induct2')
  case (4 c cs x xs)
  then show ?case by (cases j) simp_all
qed simp_all

lemma convert_geometry_failure: "wkt_loads s = None \<Longrightarrow> convert_geometry wkt_loads (Some s) = Null"
  by (simp add: convert_geometry_def)

text \<open>
  Claim C8. \<open>read_table_as_gdf\<close> returns a layer for every data frame: no value
  of \<open>wkt_loads\<close> makes it fail. For a table with a \<open>Geometry\<close> column the
  layer has the table's columns and as many rows as the table; in a row, every cell of
  another column is the table's cell, and a \<open>Geometry\<close> cell whose text
  \<open>wkt_loads\<close> cannot parse is the missing value.
\<close>

theorem read_table_as_gdf_parse_failure:
  assumes "''Geometry'' \<in> set (df_columns df)"
    and "i < length (df_rows df)"
    and "length (df_rows df ! i) = length (df_columns df)"
    and "j < length (df_columns df)"
  shows "columns (read_table_as_gdf wkt_loads df) = df_columns df
     \<and> length (rows (read_table_as_gdf wkt_loads df)) = length (df_rows df)
     \<and> (df_columns df ! j \<noteq> ''Geometry''
          \<longrightarrow> rows (read_table_as_gdf wkt_loads df) ! i ! j = as_cell (df_rows df ! i ! j))
     \<and> (\<forall>s. df_columns df ! j = ''Geometry'' \<and> df_rows df ! i ! j = Some s \<and> wkt_loads s = None
          \<longrightarrow> rows (read_table_as_gdf wkt_loads df) ! i ! j = Null)"
proof -
  have "rows (read_table_as_gdf wkt_loads df) ! i ! j =
      (if df_columns df ! j = ''Geometry'' then convert_geometry wkt_loads (df_rows df ! i ! j)
       else as_cell (df_rows df ! i ! j))"
    using assms by (simp add: read_table_as_gdf_def convert_row_nth)
  then show ?thesis
    using assms(1) by (auto simp: read_table_as_gdf_def convert_geometry_failure)
qed

theorem read_table_as_gdf_parse_failure_witness:
  "rows (read_table_as_gdf point_loads areas_df) ! 1 ! 0 = Val ''1-02''
   \<and> rows (read_table_as_gdf point_loads areas_df) ! 1 ! 1 = Null
   \<and> length (rows (read_table_as_gdf point_loads areas_df)) = 3"
proof -
  have g: "''Geometry'' \<in> set (df_columns areas_df)"
    and i: "1 < length (df_rows areas_df)"
    and l: "length (df_rows areas_df ! 1) = length (df_columns areas_df)"
    and j0: "0 < length (df_columns areas_df)" and j1: "1 < length (df_columns areas_df)"
    by (simp_all add: areas_df_def)
  have bad: "df_columns areas_df ! 1 = ''Geometry'' \<and> df_rows areas_df ! 1 ! 1 = Some ''POLYGON ((''
      \<and> point_loads ''POLYGON (('' = None"
    by (simp add: areas_df_def point_loads_def)
  have other: "df_columns areas_df ! 0 \<noteq> ''Geometry''" "as_cell (df_rows areas_df ! 1 ! 0) = Val ''1-02''"
    "length (df_rows areas_df) = 3"
    by (simp_all add: areas_df_def as_cell_def)
  from read_table_as_gdf_parse_failure [OF g i l j0, of point_loads] other
  have "rows (read_table_as_gdf point_loads areas_df) ! 1 ! 0 = Val ''1-02''"
    and "length (rows (read_table_as_gdf point_loads areas_df)) = 3"
    by simp_all
  moreover from read_table_as_gdf_parse_failure [OF g i l j1, of point_loads] bad
  have "rows (read_table_as_gdf point_loads areas_df) ! 1 ! 1 = Null"
    by blast
  ultimately show ?thesis by simp
qed

end
